theory Spec2Isabelle
  imports Main
begin

section \<open>Errors\<close>

text \<open>
  \<^verbatim>\<open>auspice/server/sources.js\<close> raises by throwing plain strings
  (\<^verbatim>\<open>throw "name() must be implemented by subclasses"\<close>); \<^verbatim>\<open>src/exceptions.js\<close>
  declares the class \<^verbatim>\<open>NoResourcePathError\<close>, which carries a message. Faults of the
  platform and of the storage client (an invalid URL, a rejected request) are the third
  kind.
\<close>

datatype error =
    Thrown string
  | NoResourcePathError string
  | PlatformError string

text \<open>
  \<^verbatim>\<open>constructor(msg = "No resource path provided", ...rest)\<close>: the default message
  stands in when no message is passed.
\<close>

definition new_NoResourcePathError :: "string option \<Rightarrow> error" where
  "new_NoResourcePathError msg =
     NoResourcePathError (case msg of None \<Rightarrow> ''No resource path provided'' | Some m \<Rightarrow> m)"

section \<open>String and array primitives of the platform\<close>

text \<open>\<^verbatim>\<open>Array.prototype.join(sep)\<close> on an array of strings.\<close>

fun join :: "string \<Rightarrow> string list \<Rightarrow> string" where
  "join sep [] = []"
| "join sep [x] = x"
| "join sep (x # y # ys) = x @ sep @ join sep (y # ys)"

text \<open>
  \<^verbatim>\<open>String.prototype.split(sep)\<close> for a separator of one character: every occurrence
  of the separator ends a piece, and the empty string splits into one empty piece.
\<close>

fun split :: "char \<Rightarrow> string \<Rightarrow> string list" where
  "split c [] = [[]]"
| "split c (x # xs) =
     (if x = c then [] # split c xs
      else (case split c xs of
              [] \<Rightarrow> [[x]]
            | p # ps \<Rightarrow> (x # p) # ps))"

text \<open>\<^verbatim>\<open>String.prototype.endsWith(s)\<close>.\<close>

definition endsWith :: "string \<Rightarrow> string \<Rightarrow> bool" where
  "endsWith file s =
     (length s \<le> length file \<and> drop (length file - length s) file = s)"

text \<open>
  \<^verbatim>\<open>file.replace(/_tree[.]json$/, "")\<close>: the pattern is a fixed text of ten characters
  anchored at the end of the input, so its only possible match is the last ten
  characters; a string that does not end so is returned as it is.
\<close>

definition replace_tree_json :: "string \<Rightarrow> string" where
  "replace_tree_json file =
     (if endsWith file ''_tree.json'' then take (length file - 10) file else file)"

text \<open>\<^verbatim>\<open>Array.prototype.slice(start)\<close> copies the elements from \<open>start\<close> on.\<close>

definition slice :: "nat \<Rightarrow> 'a list \<Rightarrow> 'a list" where
  "slice start xs = drop start xs"

text \<open>
  \<^verbatim>\<open>`${xs[i]}`\<close> inside a template literal: an index out of range reads \<^verbatim>\<open>undefined\<close>,
  which the template prints as the text \<^verbatim>\<open>undefined\<close>.
\<close>

definition template_nth :: "string list \<Rightarrow> nat \<Rightarrow> string" where
  "template_nth xs i = (if i < length xs then xs ! i else ''undefined'')"

section \<open>The class hierarchy of sources\<close>

datatype source =
    Source
  | LiveSource
  | StagingSource
  | CommunitySource
  | PrivateS3Source
  | InrbDrcSource

datatype member =
    m_name
  | m_baseUrl
  | m_bucket
  | m_dataset
  | m_visibleToUser
  | m_availableDatasets
  | m_availableNarratives

text \<open>\<^verbatim>\<open>class C extends P\<close>.\<close>

fun extends :: "source \<Rightarrow> source option" where
  "extends Source = None"
| "extends LiveSource = Some Source"
| "extends StagingSource = Some Source"
| "extends CommunitySource = Some Source"
| "extends PrivateS3Source = Some Source"
| "extends InrbDrcSource = Some PrivateS3Source"

text \<open>The members each class body declares itself.\<close>

fun declares :: "source \<Rightarrow> member list" where
  "declares Source =
     [m_name, m_baseUrl, m_dataset, m_visibleToUser, m_availableDatasets,
      m_availableNarratives]"
| "declares LiveSource = [m_name, m_baseUrl, m_availableDatasets, m_availableNarratives]"
| "declares StagingSource = [m_name, m_baseUrl, m_availableDatasets, m_availableNarratives]"
| "declares CommunitySource = [m_name, m_dataset]"
| "declares PrivateS3Source = [m_dataset, m_visibleToUser, m_availableDatasets]"
| "declares InrbDrcSource = [m_name, m_bucket, m_visibleToUser]"

fun depth :: "source \<Rightarrow> nat" where
  "depth Source = 0"
| "depth InrbDrcSource = 2"
| "depth _ = 1"

text \<open>
  Member lookup along the prototype chain: the nearest class, from the receiver's own
  class upwards, that declares the member; \<open>None\<close> when no class of the chain does.
\<close>

function implementor :: "source \<Rightarrow> member \<Rightarrow> source option" where
  "implementor c m =
     (if m \<in> set (declares c) then Some c
      else (case extends c of None \<Rightarrow> None | Some p \<Rightarrow> implementor p m))"
  by pat_completeness auto
termination
  by (relation "measure (\<lambda>(c, m). depth c)") (auto elim: extends.elims)

declare implementor.simps [simp del]

section \<open>Getters of the sources\<close>

text \<open>
  \<^verbatim>\<open>get name()\<close>: the base class throws, four classes return their constant, and
  \<^verbatim>\<open>PrivateS3Source\<close> declares none and inherits the throwing one. The last branch
  stands for a chain with no getter at all (the read would give \<^verbatim>\<open>undefined\<close>);
  \<open>name_declared\<close> below shows that no class reaches it.
\<close>

definition name :: "source \<Rightarrow> error + string" where
  "name this =
     (case implementor this m_name of
        Some Source \<Rightarrow> Inl (Thrown ''name() must be implemented by subclasses'')
      | Some LiveSource \<Rightarrow> Inr ''live''
      | Some StagingSource \<Rightarrow> Inr ''staging''
      | Some CommunitySource \<Rightarrow> Inr ''community''
      | Some InrbDrcSource \<Rightarrow> Inr ''inrb-drc''
      | _ \<Rightarrow> Inl (PlatformError ''name is undefined''))"

definition baseUrl :: "source \<Rightarrow> error + string" where
  "baseUrl this =
     (case implementor this m_baseUrl of
        Some Source \<Rightarrow> Inl (Thrown ''baseUrl() must be implemented by subclasses'')
      | Some LiveSource \<Rightarrow> Inr ''http://data.nextstrain.org/''
      | Some StagingSource \<Rightarrow> Inr ''http://staging.nextstrain.org/''
      | _ \<Rightarrow> Inl (PlatformError ''baseUrl is undefined''))"

text \<open>
  \<^verbatim>\<open>get bucket()\<close> exists on \<^verbatim>\<open>InrbDrcSource\<close> only; elsewhere \<^verbatim>\<open>this.bucket\<close> reads
  \<^verbatim>\<open>undefined\<close>, here \<open>None\<close>.
\<close>

definition bucket :: "source \<Rightarrow> string option" where
  "bucket this =
     (case implementor this m_bucket of
        Some InrbDrcSource \<Rightarrow> Some ''nextstrain-inrb''
      | _ \<Rightarrow> None)"

section \<open>Visibility\<close>

text \<open>
  The user object as the authorization check reads it: the user may be absent
  (\<open>None\<close>), and so may its \<^verbatim>\<open>groups\<close> field; when present, \<^verbatim>\<open>groups\<close> is an array of
  group names.
\<close>

record user =
  groups :: "string list option"

definition Source_visibleToUser :: "user option \<Rightarrow> error + bool" where
  "Source_visibleToUser u = Inr True"

definition PrivateS3Source_visibleToUser :: "user option \<Rightarrow> error + bool" where
  "PrivateS3Source_visibleToUser u =
     Inl (Thrown
       ''visibleToUser() must be implemented explicitly by subclasses (not inherited from Source)'')"

text \<open>
  \<^verbatim>\<open>!!user && !!user.groups && user.groups.includes("inrb")\<close>: an object and an array
  are truthy (the empty array too), \<^verbatim>\<open>undefined\<close> is falsy.
\<close>

definition InrbDrcSource_visibleToUser :: "user option \<Rightarrow> error + bool" where
  "InrbDrcSource_visibleToUser u =
     Inr (case u of
            None \<Rightarrow> False
          | Some usr \<Rightarrow>
              (case groups usr of
                 None \<Rightarrow> False
               | Some gs \<Rightarrow> ''inrb'' \<in> set gs))"

definition visibleToUser :: "source \<Rightarrow> user option \<Rightarrow> error + bool" where
  "visibleToUser this u =
     (case implementor this m_visibleToUser of
        Some Source \<Rightarrow> Source_visibleToUser u
      | Some PrivateS3Source \<Rightarrow> PrivateS3Source_visibleToUser u
      | Some InrbDrcSource \<Rightarrow> InrbDrcSource_visibleToUser u
      | _ \<Rightarrow> Inl (PlatformError ''visibleToUser is not a function''))"

section \<open>Datasets\<close>

datatype dataset_class = Dataset | CommunityDataset | PrivateS3Dataset

record dataset_obj =
  cls :: dataset_class
  source :: source
  pathParts :: "string list"

text \<open>
  \<^verbatim>\<open>dataset(pathParts)\<close>: each declaring class constructs its own dataset class; the
  constructor stores its two arguments and checks nothing.
\<close>

definition dataset :: "source \<Rightarrow> string list \<Rightarrow> error + dataset_obj" where
  "dataset this parts =
     (case implementor this m_dataset of
        Some Source \<Rightarrow> Inr \<lparr>cls = Dataset, source = this, pathParts = parts\<rparr>
      | Some CommunitySource \<Rightarrow>
          Inr \<lparr>cls = CommunityDataset, source = this, pathParts = parts\<rparr>
      | Some PrivateS3Source \<Rightarrow>
          Inr \<lparr>cls = PrivateS3Dataset, source = this, pathParts = parts\<rparr>
      | _ \<Rightarrow> Inl (PlatformError ''dataset is not a function''))"

text \<open>
  \<^verbatim>\<open>get baseParts()\<close>: \<^verbatim>\<open>this.pathParts.slice()\<close>, and for the community dataset
  \<^verbatim>\<open>this.pathParts.slice(1)\<close>.
\<close>

definition baseParts :: "dataset_obj \<Rightarrow> string list" where
  "baseParts d =
     (case cls d of
        CommunityDataset \<Rightarrow> slice 1 (pathParts d)
      | _ \<Rightarrow> slice 0 (pathParts d))"

definition baseNameFor :: "dataset_obj \<Rightarrow> string \<Rightarrow> string" where
  "baseNameFor d ty = (let baseName = join ''_'' (baseParts d) in baseName @ ''_'' @ ty @ ''.json'')"

text \<open>
  \<^verbatim>\<open>urlFor(type)\<close>. Two collaborators are not code of this repository and are
  parameters: \<open>URL input base\<close> is \<^verbatim>\<open>new URL(input, base).toString()\<close> of the platform
  (it may reject its input), and \<open>getSignedUrl operation bucket key\<close> is the storage
  client's signer.
\<close>

definition urlFor ::
  "(string \<Rightarrow> string \<Rightarrow> error + string) \<Rightarrow>
   (string \<Rightarrow> string option \<Rightarrow> string \<Rightarrow> error + string) \<Rightarrow>
   dataset_obj \<Rightarrow> string \<Rightarrow> error + string" where
  "urlFor URL getSignedUrl d ty =
     (case cls d of
        Dataset \<Rightarrow>
          (case baseUrl (source d) of
             Inl e \<Rightarrow> Inl e
           | Inr b \<Rightarrow> URL (baseNameFor d ty) b)
      | CommunityDataset \<Rightarrow>
          (let repoBaseUrl =
                 ''https://raw.githubusercontent.com/'' @ template_nth (pathParts d) 0 @ ''/''
                 @ template_nth (pathParts d) 1 @ ''/master/auspice/''
           in URL (baseNameFor d ty) repoBaseUrl)
      | PrivateS3Dataset \<Rightarrow>
          getSignedUrl ''getObject'' (bucket (source d)) (baseNameFor d ty))"

section \<open>Listings\<close>

record s3_object =
  Key :: string

record descriptor =
  request :: string

text \<open>A \<^verbatim>\<open>map\<close> whose callback may throw stops at the first element that does.\<close>

fun map_throwing :: "('a \<Rightarrow> error + 'b) \<Rightarrow> 'a list \<Rightarrow> error + 'b list" where
  "map_throwing f [] = Inr []"
| "map_throwing f (x # xs) =
     (case f x of
        Inl e \<Rightarrow> Inl e
      | Inr y \<Rightarrow> (case map_throwing f xs of Inl e \<Rightarrow> Inl e | Inr ys \<Rightarrow> Inr (y # ys)))"

definition Source_availableDatasets :: "error + descriptor list" where
  "Source_availableDatasets = Inr []"

text \<open>
  \<^verbatim>\<open>global.availableDatasets[this.name] || []\<close>: the process-wide cache is a parameter,
  a table from source names to listings.
\<close>

definition global_lookup ::
  "(string \<rightharpoonup> descriptor list) \<Rightarrow> source \<Rightarrow> error + descriptor list" where
  "global_lookup cache this =
     (case name this of
        Inl e \<Rightarrow> Inl e
      | Inr n \<Rightarrow> Inr (case cache n of None \<Rightarrow> [] | Some ds \<Rightarrow> ds))"

text \<open>
  The listing of a private store. \<open>listObjectsV2 b\<close> is the awaited answer of the storage
  client for \<^verbatim>\<open>{Bucket: b}\<close>: the \<^verbatim>\<open>Contents\<close> of its first page, or its rejection.
\<close>

definition recover_path :: "string \<Rightarrow> string" where
  "recover_path file = join ''/'' (split CHR ''_'' (replace_tree_json file))"

definition PrivateS3Source_availableDatasets ::
  "(string option \<Rightarrow> error + s3_object list) \<Rightarrow> source \<Rightarrow> error + descriptor list" where
  "PrivateS3Source_availableDatasets listObjectsV2 this =
     (case listObjectsV2 (bucket this) of
        Inl e \<Rightarrow> Inl e
      | Inr Contents \<Rightarrow>
          map_throwing
            (\<lambda>path. case name this of
                       Inl e \<Rightarrow> Inl e
                     | Inr n \<Rightarrow> Inr \<lparr>request = join ''/'' [n, path]\<rparr>)
            (map recover_path
               (filter (\<lambda>file. endsWith file ''_tree.json'') (map Key Contents))))"

definition availableDatasets ::
  "(string option \<Rightarrow> error + s3_object list) \<Rightarrow> (string \<rightharpoonup> descriptor list) \<Rightarrow>
   source \<Rightarrow> error + descriptor list" where
  "availableDatasets listObjectsV2 cache this =
     (case implementor this m_availableDatasets of
        Some Source \<Rightarrow> Source_availableDatasets
      | Some LiveSource \<Rightarrow> global_lookup cache this
      | Some StagingSource \<Rightarrow> global_lookup cache this
      | Some PrivateS3Source \<Rightarrow> PrivateS3Source_availableDatasets listObjectsV2 this
      | _ \<Rightarrow> Inl (PlatformError ''availableDatasets is not a function''))"

definition Source_availableNarratives :: "error + descriptor list" where
  "Source_availableNarratives = Inr []"

definition availableNarratives ::
  "(string \<rightharpoonup> descriptor list) \<Rightarrow> source \<Rightarrow> error + descriptor list" where
  "availableNarratives cache this =
     (case implementor this m_availableNarratives of
        Some Source \<Rightarrow> Source_availableNarratives
      | Some LiveSource \<Rightarrow> global_lookup cache this
      | Some StagingSource \<Rightarrow> global_lookup cache this
      | _ \<Rightarrow> Inl (PlatformError ''availableNarratives is not a function''))"

section \<open>The registry\<close>

text \<open>
  A \<^verbatim>\<open>Map\<close> of the platform keeps its entries in the order of first insertion; setting
  a key that is present replaces its value in place.
\<close>

fun Map_set :: "('k \<times> 'v) list \<Rightarrow> 'k \<Rightarrow> 'v \<Rightarrow> ('k \<times> 'v) list" where
  "Map_set [] k v = [(k, v)]"
| "Map_set ((k', v') # es) k v =
     (if k' = k then (k, v) # es else (k', v') # Map_set es k v)"

definition new_Map :: "('k \<times> 'v) list \<Rightarrow> ('k \<times> 'v) list" where
  "new_Map entries = foldl (\<lambda>m (k, v). Map_set m k v) [] entries"

text \<open>\<^verbatim>\<open>Map.prototype.get\<close>: the value, or \<^verbatim>\<open>undefined\<close> (here \<open>None\<close>) for an absent key.\<close>

definition Map_get :: "('k \<times> 'v) list \<Rightarrow> 'k \<Rightarrow> 'v option" where
  "Map_get m k = map_of m k"

definition module_exports :: "(string \<times> source) list" where
  "module_exports =
     new_Map
       [(''live'', LiveSource),
        (''staging'', StagingSource),
        (''community'', CommunitySource),
        (''inrb-drc'', InrbDrcSource)]"

section \<open>Datasets in a store of arrays\<close>

text \<open>
  Whether a call leaves the dataset's path parts alone depends on what is shared, so here
  arrays live in a store and a dataset holds the address of its \<^verbatim>\<open>pathParts\<close>: the
  constructor keeps the very array it is given (\<^verbatim>\<open>this.pathParts = pathParts\<close>).
  \<^verbatim>\<open>slice\<close> allocates a new array, \<^verbatim>\<open>join\<close> only reads, and no method assigns a
  field of \<^verbatim>\<open>this\<close>. A read through an address that was never allocated has no
  counterpart in the program; it is \<open>None\<close>.
\<close>

type_synonym addr = nat

type_synonym store = "string list list"

record dataset_ref =
  ref_cls :: dataset_class
  ref_source :: source
  ref_pathParts :: addr

definition deref :: "store \<Rightarrow> addr \<Rightarrow> string list option" where
  "deref st a = (if a < length st then Some (st ! a) else None)"

definition alloc :: "store \<Rightarrow> string list \<Rightarrow> addr \<times> store" where
  "alloc st arr = (length st, st @ [arr])"

definition new_Dataset_st :: "dataset_class \<Rightarrow> source \<Rightarrow> addr \<Rightarrow> dataset_ref" where
  "new_Dataset_st c s a = \<lparr>ref_cls = c, ref_source = s, ref_pathParts = a\<rparr>"

definition baseParts_st :: "dataset_ref \<Rightarrow> store \<Rightarrow> (addr \<times> store) option" where
  "baseParts_st d st =
     (case deref st (ref_pathParts d) of
        None \<Rightarrow> None
      | Some arr \<Rightarrow>
          Some (alloc st (case ref_cls d of
                            CommunityDataset \<Rightarrow> slice 1 arr
                          | _ \<Rightarrow> slice 0 arr)))"

definition baseNameFor_st ::
  "dataset_ref \<Rightarrow> string \<Rightarrow> store \<Rightarrow> (string \<times> store) option" where
  "baseNameFor_st d ty st =
     (case baseParts_st d st of
        None \<Rightarrow> None
      | Some (a, st') \<Rightarrow>
          (case deref st' a of
             None \<Rightarrow> None
           | Some parts \<Rightarrow>
               (let baseName = join ''_'' parts
                in Some (baseName @ ''_'' @ ty @ ''.json'', st'))))"

text \<open>The dataset as a value: its class, its source and the contents of its array.\<close>

definition abstraction :: "dataset_ref \<Rightarrow> string list \<Rightarrow> dataset_obj" where
  "abstraction d arr = \<lparr>cls = ref_cls d, source = ref_source d, pathParts = arr\<rparr>"

section \<open>Member lookup, evaluated\<close>

lemma implementor_name:
  "implementor Source m_name = Some Source"
  "implementor LiveSource m_name = Some LiveSource"
  "implementor StagingSource m_name = Some StagingSource"
  "implementor CommunitySource m_name = Some CommunitySource"
  "implementor PrivateS3Source m_name = Some Source"
  "implementor InrbDrcSource m_name = Some InrbDrcSource"
  by (simp_all add: implementor.simps)

lemma implementor_baseUrl:
  "implementor Source m_baseUrl = Some Source"
  "implementor LiveSource m_baseUrl = Some LiveSource"
  "implementor StagingSource m_baseUrl = Some StagingSource"
  "implementor CommunitySource m_baseUrl = Some Source"
  "implementor PrivateS3Source m_baseUrl = Some Source"
  "implementor InrbDrcSource m_baseUrl = Some Source"
  by (simp_all add: implementor.simps)

lemma implementor_bucket:
  "implementor c m_bucket = (if c = InrbDrcSource then Some InrbDrcSource else None)"
  by (cases c) (simp_all add: implementor.simps)

lemma implementor_dataset:
  "implementor Source m_dataset = Some Source"
  "implementor LiveSource m_dataset = Some Source"
  "implementor StagingSource m_dataset = Some Source"
  "implementor CommunitySource m_dataset = Some CommunitySource"
  "implementor PrivateS3Source m_dataset = Some PrivateS3Source"
  "implementor InrbDrcSource m_dataset = Some PrivateS3Source"
  by (simp_all add: implementor.simps)

lemma implementor_visibleToUser:
  "implementor Source m_visibleToUser = Some Source"
  "implementor LiveSource m_visibleToUser = Some Source"
  "implementor StagingSource m_visibleToUser = Some Source"
  "implementor CommunitySource m_visibleToUser = Some Source"
  "implementor PrivateS3Source m_visibleToUser = Some PrivateS3Source"
  "implementor InrbDrcSource m_visibleToUser = Some InrbDrcSource"
  by (simp_all add: implementor.simps)

lemma implementor_availableDatasets:
  "implementor Source m_availableDatasets = Some Source"
  "implementor LiveSource m_availableDatasets = Some LiveSource"
  "implementor StagingSource m_availableDatasets = Some StagingSource"
  "implementor CommunitySource m_availableDatasets = Some Source"
  "implementor PrivateS3Source m_availableDatasets = Some PrivateS3Source"
  "implementor InrbDrcSource m_availableDatasets = Some PrivateS3Source"
  by (simp_all add: implementor.simps)

lemma implementor_availableNarratives:
  "implementor Source m_availableNarratives = Some Source"
  "implementor LiveSource m_availableNarratives = Some LiveSource"
  "implementor StagingSource m_availableNarratives = Some StagingSource"
  "implementor CommunitySource m_availableNarratives = Some Source"
  "implementor PrivateS3Source m_availableNarratives = Some Source"
  "implementor InrbDrcSource m_availableNarratives = Some Source"
  by (simp_all add: implementor.simps)

lemmas implementor_eval =
  implementor_name implementor_baseUrl implementor_bucket implementor_dataset
  implementor_visibleToUser implementor_availableDatasets implementor_availableNarratives

lemma name_declared: "implementor c m_name \<noteq> None"
  by (cases c) (simp_all add: implementor_name)

lemma name_eval:
  "name Source = Inl (Thrown ''name() must be implemented by subclasses'')"
  "name LiveSource = Inr ''live''"
  "name StagingSource = Inr ''staging''"
  "name CommunitySource = Inr ''community''"
  "name PrivateS3Source = Inl (Thrown ''name() must be implemented by subclasses'')"
  "name InrbDrcSource = Inr ''inrb-drc''"
  by (simp_all add: name_def implementor_name)

lemma baseUrl_eval:
  "baseUrl Source = Inl (Thrown ''baseUrl() must be implemented by subclasses'')"
  "baseUrl LiveSource = Inr ''http://data.nextstrain.org/''"
  "baseUrl StagingSource = Inr ''http://staging.nextstrain.org/''"
  "baseUrl CommunitySource = Inl (Thrown ''baseUrl() must be implemented by subclasses'')"
  "baseUrl PrivateS3Source = Inl (Thrown ''baseUrl() must be implemented by subclasses'')"
  "baseUrl InrbDrcSource = Inl (Thrown ''baseUrl() must be implemented by subclasses'')"
  by (simp_all add: baseUrl_def implementor_baseUrl)

section \<open>Construction of datasets\<close>

lemma dataset_total:
  "dataset this parts =
     Inr \<lparr>cls = (if this = CommunitySource then CommunityDataset
                 else if this = PrivateS3Source \<or> this = InrbDrcSource then PrivateS3Dataset
                 else Dataset),
          source = this, pathParts = parts\<rparr>"
  by (cases this) (simp_all add: dataset_def implementor_dataset)

section \<open>Community datasets\<close>

text \<open>
  Claim C1. For the community variant and path parts \<open>owner # repo # rest\<close>, the base
  name is the join of \<open>repo # rest\<close> with underscores followed by \<open>_<type>.json\<close>; it does
  not depend on the owner. \<open>urlFor\<close> resolves that base name against
  \<^verbatim>\<open>https://raw.githubusercontent.com/<owner>/<repo>/master/auspice/\<close>, whatever the
  platform's resolver is. For \<^verbatim>\<open>["owner","repo","a","b"]\<close> the base name is
  \<^verbatim>\<open>repo_a_b_<type>.json\<close> and the base of the resolution is
  \<^verbatim>\<open>https://raw.githubusercontent.com/owner/repo/master/auspice/\<close>.
\<close>
theorem community_baseName_excludes_owner:
  "dataset CommunitySource (owner # repo # rest) =
     Inr \<lparr>cls = CommunityDataset, source = CommunitySource, pathParts = owner # repo # rest\<rparr>
   \<and> baseNameFor \<lparr>cls = CommunityDataset, source = s, pathParts = owner # repo # rest\<rparr> ty =
       join ''_'' (repo # rest) @ ''_'' @ ty @ ''.json''
   \<and> baseNameFor \<lparr>cls = CommunityDataset, source = s, pathParts = owner # repo # rest\<rparr> ty =
       baseNameFor \<lparr>cls = CommunityDataset, source = s, pathParts = owner' # repo # rest\<rparr> ty
   \<and> urlFor URL getSignedUrl
         \<lparr>cls = CommunityDataset, source = s, pathParts = owner # repo # rest\<rparr> ty =
       URL (join ''_'' (repo # rest) @ ''_'' @ ty @ ''.json'')
           (''https://raw.githubusercontent.com/'' @ owner @ ''/'' @ repo @ ''/master/auspice/'')
   \<and> baseNameFor
         \<lparr>cls = CommunityDataset, source = s, pathParts = [''owner'', ''repo'', ''a'', ''b'']\<rparr> ty =
       ''repo_a_b_'' @ ty @ ''.json''
   \<and> urlFor URL getSignedUrl
         \<lparr>cls = CommunityDataset, source = s, pathParts = [''owner'', ''repo'', ''a'', ''b'']\<rparr> ty =
       URL (''repo_a_b_'' @ ty @ ''.json'')
           ''https://raw.githubusercontent.com/owner/repo/master/auspice/''"
  by (simp add: dataset_total baseNameFor_def baseParts_def slice_def urlFor_def
      template_nth_def)

section \<open>Visibility of the private tenant\<close>

text \<open>
  Claim C2. For \<^verbatim>\<open>inrb-drc\<close>, \<open>visibleToUser\<close> returns a boolean for every user and
  never throws; it is true exactly when the user is present, its groups are present and
  the tenant's group \<^verbatim>\<open>inrb\<close> is among them. It is false for an absent user, for
  \<^verbatim>\<open>{}\<close> and for \<^verbatim>\<open>{groups: []}\<close>, and true for \<^verbatim>\<open>{groups: ["inrb"]}\<close>.
\<close>
theorem inrb_visibleToUser_iff:
  "visibleToUser InrbDrcSource u =
     Inr (\<exists>usr gs. u = Some usr \<and> groups usr = Some gs \<and> ''inrb'' \<in> set gs)
   \<and> visibleToUser InrbDrcSource None = Inr False
   \<and> visibleToUser InrbDrcSource (Some \<lparr>groups = None\<rparr>) = Inr False
   \<and> visibleToUser InrbDrcSource (Some \<lparr>groups = Some []\<rparr>) = Inr False
   \<and> visibleToUser InrbDrcSource (Some \<lparr>groups = Some [''inrb'']\<rparr>) = Inr True"
  by (auto simp: visibleToUser_def implementor_visibleToUser InrbDrcSource_visibleToUser_def
      split: option.splits)

section \<open>Unimplemented capabilities\<close>

text \<open>
  Claim C6. A required capability that is not implemented throws: \<open>name\<close> and \<open>baseUrl\<close>
  on the base class (and \<open>baseUrl\<close> on a class that inherits it, which also stops
  \<open>urlFor\<close> of a default dataset), and \<open>visibleToUser\<close> on \<^verbatim>\<open>PrivateS3Source\<close>, which
  throws for every user instead of answering true as the public default does.
\<close>
theorem unimplemented_capability_throws:
  "name Source = Inl (Thrown ''name() must be implemented by subclasses'')
   \<and> baseUrl Source = Inl (Thrown ''baseUrl() must be implemented by subclasses'')
   \<and> baseUrl CommunitySource = Inl (Thrown ''baseUrl() must be implemented by subclasses'')
   \<and> urlFor URL getSignedUrl \<lparr>cls = Dataset, source = Source, pathParts = parts\<rparr> ty =
       Inl (Thrown ''baseUrl() must be implemented by subclasses'')
   \<and> visibleToUser PrivateS3Source u =
       Inl (Thrown
         ''visibleToUser() must be implemented explicitly by subclasses (not inherited from Source)'')
   \<and> visibleToUser PrivateS3Source u \<noteq> Inr True"
  by (simp add: name_eval baseUrl_eval urlFor_def visibleToUser_def implementor_visibleToUser
      PrivateS3Source_visibleToUser_def)


section \<open>Listing a private store\<close>

lemma split_append_sep: "c \<notin> set p \<Longrightarrow> split c (p @ c # s) = p # split c s"
  by (induction p) (auto split: list.splits)

lemma split_plain: "c \<notin> set p \<Longrightarrow> split c p = [p]"
  by (induction p) (auto split: list.splits)

lemma split_join:
  "parts \<noteq> [] \<Longrightarrow> \<forall>p \<in> set parts. c \<notin> set p \<Longrightarrow> split c (join [c] parts) = parts"
  by (induction "[c]" parts rule: join.induct) (auto simp: split_plain split_append_sep)

lemma endsWith_append: "endsWith (b @ s) s"
  by (simp add: endsWith_def)

lemma replace_tree_json_append: "replace_tree_json (b @ ''_tree.json'') = b"
  using endsWith_append [of b "''_tree.json''"] by (simp add: replace_tree_json_def)

lemma replace_tree_json_endsWith:
  "endsWith file ''_tree.json'' \<Longrightarrow> replace_tree_json file = take (length file - 10) file"
  by (simp add: replace_tree_json_def)

lemma map_throwing_Inr: "map_throwing (\<lambda>x. Inr (f x)) xs = Inr (map f xs)"
  by (induction xs) simp_all

lemma map_throwing_Inl: "xs \<noteq> [] \<Longrightarrow> map_throwing (\<lambda>x. Inl e) xs = Inl e"
  by (cases xs) simp_all

text \<open>
  Claim C3. For a source whose \<open>availableDatasets\<close> is the private store's and that has a
  name, the listing keeps exactly the keys ending in \<^verbatim>\<open>_tree.json\<close>, in their order,
  strips that suffix (ten characters), splits at underscores, joins with \<^verbatim>\<open>/\<close> and
  yields \<^verbatim>\<open>{request: "<name>/<path>"}\<close> for each. The keys \<^verbatim>\<open>a_b_tree.json\<close>,
  \<^verbatim>\<open>a_b_meta.json\<close>, \<^verbatim>\<open>c_tree.json\<close> of the bucket of \<^verbatim>\<open>inrb-drc\<close> give exactly
  \<^verbatim>\<open>inrb-drc/a/b\<close> and \<^verbatim>\<open>inrb-drc/c\<close>.
\<close>
theorem private_availableDatasets_listing:
  assumes "implementor this m_availableDatasets = Some PrivateS3Source"
    and "name this = Inr n"
    and "listObjectsV2 (bucket this) = Inr Contents"
  shows "availableDatasets listObjectsV2 cache this =
           Inr (map (\<lambda>file. \<lparr>request = n @ ''/'' @
                                join ''/'' (split CHR ''_'' (take (length file - 10) file))\<rparr>)
                  (filter (\<lambda>file. endsWith file ''_tree.json'') (map Key Contents)))"
proof -
  let ?keep = "filter (\<lambda>file. endsWith file ''_tree.json'') (map Key Contents)"
  have paths: "map recover_path ?keep =
                 map (\<lambda>file. join ''/'' (split CHR ''_'' (take (length file - 10) file))) ?keep"
    by (rule map_cong) (auto simp: recover_path_def replace_tree_json_endsWith)
  have "availableDatasets listObjectsV2 cache this =
          map_throwing (\<lambda>path. Inr \<lparr>request = join ''/'' [n, path]\<rparr>) (map recover_path ?keep)"
    using assms by (simp add: availableDatasets_def PrivateS3Source_availableDatasets_def)
  also have "\<dots> = Inr (map (\<lambda>path. \<lparr>request = join ''/'' [n, path]\<rparr>) (map recover_path ?keep))"
    by (rule map_throwing_Inr)
  finally show ?thesis
    by (simp add: paths comp_def)
qed

theorem private_availableDatasets_listing_witness:
  "availableDatasets
     (\<lambda>b. if b = Some ''nextstrain-inrb''
           then Inr [\<lparr>Key = ''a_b_tree.json''\<rparr>, \<lparr>Key = ''a_b_meta.json''\<rparr>, \<lparr>Key = ''c_tree.json''\<rparr>]
           else Inl (PlatformError ''NoSuchBucket''))
     Map.empty InrbDrcSource =
   Inr [\<lparr>request = ''inrb-drc/a/b''\<rparr>, \<lparr>request = ''inrb-drc/c''\<rparr>]"
proof -
  let ?list = "\<lambda>b. if b = Some ''nextstrain-inrb''
           then Inr [\<lparr>Key = ''a_b_tree.json''\<rparr>, \<lparr>Key = ''a_b_meta.json''\<rparr>, \<lparr>Key = ''c_tree.json''\<rparr>]
           else Inl (PlatformError ''NoSuchBucket'')"
  have h1: "implementor InrbDrcSource m_availableDatasets = Some PrivateS3Source"
    by (simp add: implementor_availableDatasets)
  have h2: "name InrbDrcSource = Inr ''inrb-drc''"
    by (simp add: name_eval)
  have h3: "?list (bucket InrbDrcSource) =
              Inr [\<lparr>Key = ''a_b_tree.json''\<rparr>, \<lparr>Key = ''a_b_meta.json''\<rparr>, \<lparr>Key = ''c_tree.json''\<rparr>]"
    by (simp add: bucket_def implementor_bucket)
  show ?thesis
    using private_availableDatasets_listing [of InrbDrcSource "''inrb-drc''" ?list, OF h1 h2 h3, of Map.empty]
    by (simp add: endsWith_def)
qed

text \<open>
  Claim C4. The recovery rule of the listing inverts the base-name rule: for non-empty
  path parts whose segments hold no underscore, recovering the path from
  \<open>baseNameFor\<close> of the default dataset for the type \<^verbatim>\<open>tree\<close> gives the path parts
  joined with \<^verbatim>\<open>/\<close>.
\<close>
theorem recover_path_inverts_baseNameFor:
  assumes "parts \<noteq> []"
    and "\<forall>p \<in> set parts. CHR ''_'' \<notin> set p"
  shows "recover_path (baseNameFor \<lparr>cls = Dataset, source = s, pathParts = parts\<rparr> ''tree'') =
           join ''/'' parts"
proof -
  have "baseNameFor \<lparr>cls = Dataset, source = s, pathParts = parts\<rparr> ''tree'' =
          join ''_'' parts @ ''_tree.json''"
    by (simp add: baseNameFor_def baseParts_def slice_def)
  then have "recover_path (baseNameFor \<lparr>cls = Dataset, source = s, pathParts = parts\<rparr> ''tree'') =
          join ''/'' (split CHR ''_'' (join ''_'' parts))"
    using replace_tree_json_append [of "join ''_'' parts"] by (simp add: recover_path_def)
  then show ?thesis
    using split_join [OF assms] by simp
qed

theorem recover_path_inverts_baseNameFor_witness:
  "[''flu'', ''seasonal'', ''h3n2''] \<noteq> []
   \<and> baseNameFor \<lparr>cls = Dataset, source = LiveSource,
         pathParts = [''flu'', ''seasonal'', ''h3n2'']\<rparr> ''tree'' = ''flu_seasonal_h3n2_tree.json''
   \<and> recover_path ''flu_seasonal_h3n2_tree.json'' = ''flu/seasonal/h3n2''"
proof -
  have h1: "[''flu'', ''seasonal'', ''h3n2''] \<noteq> []" by simp
  have h2: "\<forall>p \<in> set [''flu'', ''seasonal'', ''h3n2'']. CHR ''_'' \<notin> set p" by simp
  have b: "baseNameFor \<lparr>cls = Dataset, source = LiveSource,
         pathParts = [''flu'', ''seasonal'', ''h3n2'']\<rparr> ''tree'' = ''flu_seasonal_h3n2_tree.json''"
    by (simp add: baseNameFor_def baseParts_def slice_def)
  show ?thesis
    using recover_path_inverts_baseNameFor [OF h1 h2, of LiveSource] b by simp
qed

section \<open>Datasets without a path\<close>

text \<open>
  Claim C5, evaluated on the code. \<open>dataset\<close> with an empty sequence of path parts does
  not fail with \<^verbatim>\<open>NoResourcePathError\<close>: on every source it returns a dataset holding
  the empty sequence, and the base name of that dataset for the live source and the
  type \<^verbatim>\<open>tree\<close> is \<^verbatim>\<open>_tree.json\<close>.
\<close>
theorem dataset_accepts_empty_pathParts:
  "dataset this [] \<noteq> Inl (new_NoResourcePathError None)
   \<and> (\<exists>d. dataset this [] = Inr d \<and> pathParts d = [])
   \<and> dataset LiveSource [] = Inr \<lparr>cls = Dataset, source = LiveSource, pathParts = []\<rparr>
   \<and> baseNameFor \<lparr>cls = Dataset, source = LiveSource, pathParts = []\<rparr> ''tree'' = ''_tree.json''"
  by (simp add: dataset_total baseNameFor_def baseParts_def slice_def)

section \<open>The registry of sources\<close>

lemma module_exports_entries:
  "module_exports =
     [(''live'', LiveSource), (''staging'', StagingSource),
      (''community'', CommunitySource), (''inrb-drc'', InrbDrcSource)]"
  by (simp add: module_exports_def new_Map_def)

text \<open>
  Claim C7. Looking a name up in the registry yields no source (\<open>None\<close>, the
  \<^verbatim>\<open>undefined\<close> of \<^verbatim>\<open>Map.prototype.get\<close>) exactly when the name is none of \<^verbatim>\<open>live\<close>,
  \<^verbatim>\<open>staging\<close>, \<^verbatim>\<open>community\<close>, \<^verbatim>\<open>inrb-drc\<close>; the lookup is a total function and throws
  nothing. Each of the four names yields its source.
\<close>

theorem registry_lookup:
  "(Map_get module_exports k = None) =
     (k \<notin> {''live'', ''staging'', ''community'', ''inrb-drc''})
   \<and> Map_get module_exports ''live'' = Some LiveSource
   \<and> Map_get module_exports ''staging'' = Some StagingSource
   \<and> Map_get module_exports ''community'' = Some CommunitySource
   \<and> Map_get module_exports ''inrb-drc'' = Some InrbDrcSource"
  by (simp add: Map_get_def module_exports_entries)

theorem registry_lookup_witness:
  "Map_get module_exports ''flu'' = None"
  using registry_lookup [of "''flu''"] by simp

section \<open>Defaults of the base class\<close>

text \<open>
  Claim C8. On every source whose \<open>visibleToUser\<close> is the one of the base class, it
  returns true for every user, the absent one included; on every source whose
  \<open>availableDatasets\<close> (\<open>availableNarratives\<close>) is the one of the base class, it returns
  the empty sequence. The sources that do not override are listed for each of the three.
\<close>
theorem default_capabilities:
  "(implementor s m_visibleToUser = Some Source \<longrightarrow> visibleToUser s u = Inr True)
   \<and> (implementor s m_availableDatasets = Some Source \<longrightarrow>
        availableDatasets listObjectsV2 cache s = Inr [])
   \<and> (implementor s m_availableNarratives = Some Source \<longrightarrow>
        availableNarratives cache' s = Inr [])
   \<and> (implementor s m_visibleToUser = Some Source) =
        (s \<in> {Source, LiveSource, StagingSource, CommunitySource})
   \<and> (implementor s m_availableDatasets = Some Source) = (s \<in> {Source, CommunitySource})
   \<and> (implementor s m_availableNarratives = Some Source) =
        (s \<in> {Source, CommunitySource, PrivateS3Source, InrbDrcSource})"
  by (cases s)
    (simp_all add: implementor_eval visibleToUser_def availableDatasets_def
      availableNarratives_def Source_visibleToUser_def Source_availableDatasets_def
      Source_availableNarratives_def)

theorem default_capabilities_witness:
  "implementor CommunitySource m_visibleToUser = Some Source
   \<and> visibleToUser CommunitySource None = Inr True
   \<and> availableDatasets (\<lambda>b. Inl (PlatformError ''unreachable'')) Map.empty CommunitySource = Inr []
   \<and> availableNarratives Map.empty CommunitySource = Inr []"
  using default_capabilities [of CommunitySource None "\<lambda>b. Inl (PlatformError ''unreachable'')"
      Map.empty Map.empty]
  by (simp add: implementor_eval)

text \<open>
  Claim C10. Every entry of the registry is keyed by the name of its source; the keys
  are \<^verbatim>\<open>live\<close>, \<^verbatim>\<open>staging\<close>, \<^verbatim>\<open>community\<close>, \<^verbatim>\<open>inrb-drc\<close>, four entries with
  distinct keys.
\<close>
theorem registry_keys_are_names:
  "(\<forall>(k, s) \<in> set module_exports. name s = Inr k)
   \<and> map fst module_exports = [''live'', ''staging'', ''community'', ''inrb-drc'']
   \<and> distinct (map fst module_exports)
   \<and> length module_exports = 4"
  by (simp add: module_exports_entries name_eval)

theorem registry_keys_are_names_witness:
  "(''inrb-drc'', InrbDrcSource) \<in> set module_exports
   \<and> name InrbDrcSource = Inr ''inrb-drc''"
proof -
  have m: "(''inrb-drc'', InrbDrcSource) \<in> set module_exports"
    by (simp add: module_exports_entries)
  from registry_keys_are_names have "\<forall>(k, s) \<in> set module_exports. name s = Inr k"
    by (rule conjunct1)
  with m show ?thesis by blast
qed

section \<open>Purity of the base name\<close>

lemma baseNameFor_st_eq:
  assumes "ref_pathParts d < length st"
  shows "baseNameFor_st d ty st =
           Some (baseNameFor (abstraction d (st ! ref_pathParts d)) ty,
                 st @ [baseParts (abstraction d (st ! ref_pathParts d))])"
  using assms
  by (simp add: baseNameFor_st_def baseParts_st_def deref_def alloc_def baseNameFor_def
      baseParts_def abstraction_def Let_def split: dataset_class.splits)

text \<open>
  Claim C9. For every dataset whose path parts are an array of the store and every type,
  \<open>baseNameFor\<close> returns, a second call in the store the first one left returns the same
  string, that string is a function of the dataset's class and path parts and of the type
  alone, and neither call changes an array that existed before, the dataset's path parts
  in particular.
\<close>

theorem baseNameFor_pure:
  assumes "ref_pathParts d < length st"
  shows "\<exists>r st1 st2.
           baseNameFor_st d ty st = Some (r, st1) \<and>
           baseNameFor_st d ty st1 = Some (r, st2) \<and>
           r = baseNameFor (abstraction d (st ! ref_pathParts d)) ty \<and>
           take (length st) st1 = st \<and> take (length st) st2 = st \<and>
           deref st1 (ref_pathParts d) = deref st (ref_pathParts d) \<and>
           deref st2 (ref_pathParts d) = deref st (ref_pathParts d)"
proof -
  let ?a = "ref_pathParts d"
  let ?bp = "baseParts (abstraction d (st ! ?a))"
  let ?st1 = "st @ [?bp]"
  have lt1: "?a < length ?st1" using assms by simp
  have same: "?st1 ! ?a = st ! ?a" using assms by (simp add: nth_append)
  have c1: "baseNameFor_st d ty st = Some (baseNameFor (abstraction d (st ! ?a)) ty, ?st1)"
    by (rule baseNameFor_st_eq [OF assms])
  have c2: "baseNameFor_st d ty ?st1 =
              Some (baseNameFor (abstraction d (st ! ?a)) ty, ?st1 @ [?bp])"
    using baseNameFor_st_eq [OF lt1, of ty] same by simp
  show ?thesis
    using c1 c2 assms by (simp add: deref_def nth_append)
qed

theorem baseNameFor_pure_witness:
  "\<exists>r st1 st2.
     baseNameFor_st (new_Dataset_st CommunityDataset CommunitySource 0) ''tree''
        [[''owner'', ''repo'', ''a'']] = Some (r, st1) \<and>
     baseNameFor_st (new_Dataset_st CommunityDataset CommunitySource 0) ''tree'' st1 =
        Some (r, st2) \<and>
     r = ''repo_a_tree.json'' \<and>
     deref st1 0 = Some [''owner'', ''repo'', ''a''] \<and>
     deref st2 0 = Some [''owner'', ''repo'', ''a'']"
proof -
  let ?d = "new_Dataset_st CommunityDataset CommunitySource 0"
  let ?st = "[[''owner'', ''repo'', ''a'']]"
  have h: "ref_pathParts ?d < length ?st"
    by (simp add: new_Dataset_st_def)
  from baseNameFor_pure [OF h, of "''tree''"] obtain r st1 st2 where
    c1: "baseNameFor_st ?d ''tree'' ?st = Some (r, st1)" and
    c2: "baseNameFor_st ?d ''tree'' st1 = Some (r, st2)" and
    r: "r = baseNameFor (abstraction ?d (?st ! ref_pathParts ?d)) ''tree''" and
    d1: "deref st1 (ref_pathParts ?d) = deref ?st (ref_pathParts ?d)" and
    d2: "deref st2 (ref_pathParts ?d) = deref ?st (ref_pathParts ?d)"
    by blast
  have r': "r = ''repo_a_tree.json''"
    using r
    by (simp add: new_Dataset_st_def abstraction_def baseNameFor_def baseParts_def slice_def)
  have d1': "deref st1 0 = Some [''owner'', ''repo'', ''a'']"
    using d1 by (simp add: new_Dataset_st_def deref_def)
  have d2': "deref st2 0 = Some [''owner'', ''repo'', ''a'']"
    using d2 by (simp add: new_Dataset_st_def deref_def)
  from c1 c2 r' d1' d2' show ?thesis by blast
qed

end
